theory Spec2Isabelle
  imports Complex_Main
begin

section \<open>Python values used by media\_toolkit.py\<close>

text \<open>
  A Python \<open>str\<close> is modelled by its UTF-8 encoding, a \<open>string\<close> of bytes; the three
  non-ASCII glyphs of the program's messages are spelled out as their encodings.
  Prefix, suffix and substring tests on the encodings are those on the code points.
  \<open>str.lower\<close> and \<open>str.upper\<close> act on the ASCII letters: the names the program compares
  a lower-cased string with hold no letter that a non-ASCII character lowers to.
\<close>

definition cross_mark :: string where
  "cross_mark = [CHR 0xE2, CHR 0x9D, CHR 0x8C]"

definition check_mark :: string where
  "check_mark = [CHR 0xE2, CHR 0x9C, CHR 0x85]"

definition arrow :: string where
  "arrow = [CHR 0xE2, CHR 0x86, CHR 0x92]"

definition startswith :: "string \<Rightarrow> string \<Rightarrow> bool" where
  "startswith s p = (take (length p) s = p)"

definition endswith :: "string \<Rightarrow> string \<Rightarrow> bool" where
  "endswith s p = startswith (rev s) (rev p)"

text \<open>
  The characters \<open>str.isspace\<close> holds of, each as its encoding: U+0009 to U+000D,
  U+001C to U+0020, U+0085, U+00A0, U+1680, U+2000 to U+200A, U+2028, U+2029, U+202F,
  U+205F and U+3000.
\<close>

definition whitespace :: "string list" where
  "whitespace =
     [[CHR 0x09], [CHR 0x0A], [CHR 0x0B], [CHR 0x0C], [CHR 0x0D],
      [CHR 0x1C], [CHR 0x1D], [CHR 0x1E], [CHR 0x1F], [CHR 0x20],
      [CHR 0xC2, CHR 0x85], [CHR 0xC2, CHR 0xA0], [CHR 0xE1, CHR 0x9A, CHR 0x80],
      [CHR 0xE2, CHR 0x80, CHR 0x80], [CHR 0xE2, CHR 0x80, CHR 0x81],
      [CHR 0xE2, CHR 0x80, CHR 0x82], [CHR 0xE2, CHR 0x80, CHR 0x83],
      [CHR 0xE2, CHR 0x80, CHR 0x84], [CHR 0xE2, CHR 0x80, CHR 0x85],
      [CHR 0xE2, CHR 0x80, CHR 0x86], [CHR 0xE2, CHR 0x80, CHR 0x87],
      [CHR 0xE2, CHR 0x80, CHR 0x88], [CHR 0xE2, CHR 0x80, CHR 0x89],
      [CHR 0xE2, CHR 0x80, CHR 0x8A], [CHR 0xE2, CHR 0x80, CHR 0xA8],
      [CHR 0xE2, CHR 0x80, CHR 0xA9], [CHR 0xE2, CHR 0x80, CHR 0xAF],
      [CHR 0xE2, CHR 0x81, CHR 0x9F], [CHR 0xE3, CHR 0x80, CHR 0x80]]"

text \<open>
  \<open>lstrip_tokens ws s\<close> takes leading occurrences of the tokens \<open>ws\<close> off \<open>s\<close> for as
  long as there is one. \<open>str.strip\<close> takes whitespace off both ends: a UTF-8 string ends
  with the encoding of a character exactly when that is its last character.
\<close>

function lstrip_tokens :: "string list \<Rightarrow> string \<Rightarrow> string" where
  "lstrip_tokens ws s =
     (case find (\<lambda>w. w \<noteq> [] \<and> startswith s w) ws of
        None \<Rightarrow> s
      | Some w \<Rightarrow> lstrip_tokens ws (drop (length w) s))"
  by pat_completeness auto
termination
proof (relation "measure (\<lambda>p. length (snd p))")
  show "wf (measure (\<lambda>p. length (snd p)))" by simp
next
  fix ws :: "string list" and s w :: string
  assume "find (\<lambda>w. w \<noteq> [] \<and> startswith s w) ws = Some w"
  then have "w \<noteq> []" and "take (length w) s = w"
    by (auto simp: find_Some_iff startswith_def)
  then have "s \<noteq> []" by auto
  with \<open>w \<noteq> []\<close> show "((ws, drop (length w) s), (ws, s)) \<in> measure (\<lambda>p. length (snd p))"
    by simp
qed

declare lstrip_tokens.simps [simp del]

definition strip :: "string \<Rightarrow> string" where
  "strip s = rev (lstrip_tokens (map rev whitespace) (rev (lstrip_tokens whitespace s)))"

definition lower_char :: "char \<Rightarrow> char" where
  "lower_char c =
     (case map_of (zip ''ABCDEFGHIJKLMNOPQRSTUVWXYZ'' ''abcdefghijklmnopqrstuvwxyz'') c of
        Some d \<Rightarrow> d
      | None \<Rightarrow> c)"

definition upper_char :: "char \<Rightarrow> char" where
  "upper_char c =
     (case map_of (zip ''abcdefghijklmnopqrstuvwxyz'' ''ABCDEFGHIJKLMNOPQRSTUVWXYZ'') c of
        Some d \<Rightarrow> d
      | None \<Rightarrow> c)"

definition lower :: "string \<Rightarrow> string" where
  "lower s = map lower_char s"

definition upper :: "string \<Rightarrow> string" where
  "upper s = map upper_char s"

text \<open>\<open>sub in s\<close> for two strings: \<open>sub\<close> occurs in \<open>s\<close> as a contiguous run.\<close>

fun contains :: "string \<Rightarrow> string \<Rightarrow> bool" where
  "contains [] sub = (sub = [])"
| "contains (c # cs) sub = (startswith (c # cs) sub \<or> contains cs sub)"

text \<open>\<open>s.replace(c, "")\<close> for a one-character \<open>c\<close>.\<close>

definition remove_char :: "char \<Rightarrow> string \<Rightarrow> string" where
  "remove_char c s = filter (\<lambda>d. d \<noteq> c) s"

subsection \<open>Exceptions\<close>

text \<open>
  Every exception the program can meet is a subclass of \<open>Exception\<close>; \<open>ToolError\<close> stands
  for whatever an external library or process raises (\<open>OSError\<close>, \<open>CalledProcessError\<close>,
  \<open>DownloadError\<close>, \<open>JSONDecodeError\<close>, ...), carrying its \<open>str(e)\<close>. Emitting a signal on
  an emitter does not raise.
\<close>

datatype exn =
    RuntimeError string
  | KeyError string
  | TypeError string
  | AttributeError string
  | ToolError string

text \<open>\<open>str(e)\<close>: a \<open>KeyError\<close> prints the \<open>repr\<close> of its key.\<close>

fun exn_str :: "exn \<Rightarrow> string" where
  "exn_str (RuntimeError m) = m"
| "exn_str (KeyError k) = [CHR 0x27] @ k @ [CHR 0x27]"
| "exn_str (TypeError m) = m"
| "exn_str (AttributeError m) = m"
| "exn_str (ToolError m) = m"

subsection \<open>\<open>posixpath\<close>: \<open>os.path\<close> where \<open>os.name\<close> is not \<open>nt\<close>\<close>

definition not_sep :: "char \<Rightarrow> bool" where
  "not_sep c = (c \<noteq> CHR ''/'')"

definition basename :: "string \<Rightarrow> string" where
  "basename p = rev (takeWhile not_sep (rev p))"

definition dirname :: "string \<Rightarrow> string" where
  "dirname p =
     (let head = rev (dropWhile not_sep (rev p))
      in if head \<noteq> [] \<and> filter not_sep head \<noteq> []
         then rev (dropWhile (\<lambda>c. c = CHR ''/'') (rev head))
         else head)"

text \<open>
  \<open>splitext\<close>: the extension starts at the last dot of the last path component, unless
  that component has nothing but dots before it.
\<close>

definition splitext :: "string \<Rightarrow> string \<times> string" where
  "splitext p =
     (let name = basename p;
          head = take (length p - length name) p;
          ext = rev (takeWhile (\<lambda>c. c \<noteq> CHR ''.'') (rev name));
          stem = take (length name - length ext - 1) name
      in if CHR ''.'' \<in> set name \<and> filter (\<lambda>c. c \<noteq> CHR ''.'') stem \<noteq> []
         then (head @ stem, CHR ''.'' # ext)
         else (p, []))"

text \<open>\<open>os.path.join(a, b)\<close> with one component \<open>b\<close>.\<close>

definition path_join :: "string \<Rightarrow> string \<Rightarrow> string" where
  "path_join a b =
     (if startswith b ''/'' then b
      else if a = [] \<or> endswith a ''/'' then a @ b
      else a @ ''/'' @ b)"

section \<open>Settings persistence\<close>

text \<open>What \<open>json.load\<close> can return; \<open>JNum\<close> stands for any JSON number.\<close>

datatype json =
    JNull
  | JBool bool
  | JNum int
  | JStr string
  | JArr "json list"
  | JObj "(string \<times> json) list"

text \<open>
  \<open>DEFAULT_SETTINGS\<close>; \<open>downloads\<close> is \<open>str(Path.home() / "Downloads")\<close>.
\<close>

definition DEFAULT_SETTINGS :: "string \<Rightarrow> (string \<times> json) list" where
  "DEFAULT_SETTINGS downloads =
     [(''ffmpeg_path'', JStr ''''), (''default_output'', JStr downloads)]"

text \<open>\<open>d[k] = v\<close> on a dictionary kept in insertion order.\<close>

fun dict_set :: "'k \<Rightarrow> 'v \<Rightarrow> ('k \<times> 'v) list \<Rightarrow> ('k \<times> 'v) list" where
  "dict_set k v [] = [(k, v)]"
| "dict_set k v ((k', v') # kvs) =
     (if k' = k then (k, v) # kvs else (k', v') # dict_set k v kvs)"

text \<open>
  \<open>k in s\<close> for a string key \<open>k\<close>: key membership in a dict, element membership in a
  list, substring test in a string, \<open>TypeError\<close> for a value that is not a container.
\<close>

fun py_in :: "string \<Rightarrow> json \<Rightarrow> exn + bool" where
  "py_in k (JObj kvs) = Inr (k \<in> set (map fst kvs))"
| "py_in k (JArr xs) = Inr (JStr k \<in> set xs)"
| "py_in k (JStr t) = Inr (contains t k)"
| "py_in k JNull = Inl (TypeError ''argument of type 'NoneType' is not iterable'')"
| "py_in k (JBool b) = Inl (TypeError ''argument of type 'bool' is not iterable'')"
| "py_in k (JNum n) = Inl (TypeError ''argument of type 'int' is not iterable'')"

text \<open>\<open>s[k] = v\<close> for a string key \<open>k\<close>: only a dict takes it.\<close>

fun py_setitem :: "json \<Rightarrow> string \<Rightarrow> json \<Rightarrow> exn + json" where
  "py_setitem (JObj kvs) k v = Inr (JObj (dict_set k v kvs))"
| "py_setitem (JArr xs) k v =
     Inl (TypeError ''list indices must be integers or slices, not str'')"
| "py_setitem s k v = Inl (TypeError ''object does not support item assignment'')"

text \<open>
  The loop \<open>for k, v in DEFAULT_SETTINGS.items(): if k not in s: s[k] = v\<close>.
\<close>

fun fill_defaults :: "(string \<times> json) list \<Rightarrow> json \<Rightarrow> exn + json" where
  "fill_defaults [] s = Inr s"
| "fill_defaults ((k, v) # kvs) s =
     (case py_in k s of
        Inl e \<Rightarrow> Inl e
      | Inr True \<Rightarrow> fill_defaults kvs s
      | Inr False \<Rightarrow>
          (case py_setitem s k v of
             Inl e \<Rightarrow> Inl e
           | Inr s' \<Rightarrow> fill_defaults kvs s'))"

text \<open>
  \<open>load_settings\<close>. \<open>file_exists\<close> is \<open>SETTINGS_FILE.exists()\<close>; \<open>loaded\<close> is the outcome of
  opening the file and \<open>json.load\<close>: the parsed document or the exception raised.
\<close>

definition load_settings :: "string \<Rightarrow> bool \<Rightarrow> exn + json \<Rightarrow> json" where
  "load_settings downloads file_exists loaded =
     (if file_exists then
        (case loaded of
           Inl e \<Rightarrow> JObj (DEFAULT_SETTINGS downloads)
         | Inr s \<Rightarrow>
             (case fill_defaults (DEFAULT_SETTINGS downloads) s of
                Inl e \<Rightarrow> JObj (DEFAULT_SETTINGS downloads)
              | Inr s' \<Rightarrow> s'))
      else JObj (DEFAULT_SETTINGS downloads))"

section \<open>The world outside the program\<close>

text \<open>
  Python values beyond \<open>str\<close> are those of \<open>json\<close>: the module-level \<open>settings\<close> is
  whatever \<open>load_settings\<close> returned. Truth value, type name, and \<open>s.get(k, d)\<close>, which
  only a dict has.
\<close>

fun truthy :: "json \<Rightarrow> bool" where
  "truthy JNull = False"
| "truthy (JBool b) = b"
| "truthy (JNum n) = (n \<noteq> 0)"
| "truthy (JStr s) = (s \<noteq> [])"
| "truthy (JArr xs) = (xs \<noteq> [])"
| "truthy (JObj kvs) = (kvs \<noteq> [])"

fun type_name :: "json \<Rightarrow> string" where
  "type_name JNull = ''NoneType''"
| "type_name (JBool b) = ''bool''"
| "type_name (JNum n) = ''int''"
| "type_name (JStr s) = ''str''"
| "type_name (JArr xs) = ''list''"
| "type_name (JObj kvs) = ''dict''"

definition no_attribute :: "json \<Rightarrow> string \<Rightarrow> exn" where
  "no_attribute v a =
     AttributeError ([CHR 0x27] @ type_name v @ [CHR 0x27] @ '' object has no attribute ''
                     @ [CHR 0x27] @ a @ [CHR 0x27])"

fun py_get :: "json \<Rightarrow> string \<Rightarrow> json \<Rightarrow> exn + json" where
  "py_get (JObj kvs) k d = Inr (case map_of kvs k of Some v \<Rightarrow> v | None \<Rightarrow> d)"
| "py_get s k d = Inl (no_attribute s ''get'')"

text \<open>The status dictionary yt-dlp hands to a progress hook; an absent key is \<open>None\<close>.\<close>

record hook_status =
  status :: "string option"
  percent_str :: "string option"
  filename :: "string option"

text \<open>
  Values of the yt-dlp option dictionary; \<open>VHooks\<close> is the list \<open>[p_hook]\<close>, \<open>VJson\<close> a value
  taken from the settings.
\<close>

datatype optval =
    VStr string
  | VBool bool
  | VNone
  | VHooks
  | VJson json
  | VList "optval list"
  | VDict "(string \<times> optval) list"

type_synonym ydl_opts = "(string \<times> optval) list"

text \<open>
  Pillow images. The pixel data carries the mode: four bands (RGBA) or three (RGB).
\<close>

type_synonym rgba = "nat \<times> nat \<times> nat \<times> nat"
type_synonym rgb = "nat \<times> nat \<times> nat"

datatype pixels = RGBA "rgba list" | RGB "rgb list"

record image =
  img_size :: "nat \<times> nat"
  pixels :: pixels

text \<open>
  What a successful adapter leaves at \<open>outfile\<close>. An icon file is described by the sizes
  of the frames it holds.
\<close>

datatype artifact =
    ImageFile string image
  | IcoFile image "(nat \<times> nat) list"
  | Transcoded "string list"
  | DocFile string string

text \<open>
  Everything the program reads from outside itself, as one record:
  \<^item> \<open>settings\<close> is the module-level dictionary; \<open>getcwd\<close> is \<open>os.getcwd()\<close>, which raises
    when the working directory is gone;
  \<^item> \<open>os_nt\<close> is \<open>os.name == "nt"\<close>, and the four \<open>nt_\<close> functions are those of \<open>ntpath\<close>,
    which is \<open>os.path\<close> there;
  \<^item> \<open>pillow\<close> and \<open>pandoc\<close> say whether the optional imports succeeded
    (\<open>Image is not None\<close>, \<open>pypandoc\<close> truthy);
  \<^item> \<open>guess_type\<close> is the first component of \<open>mimetypes.guess_type\<close>;
  \<^item> \<open>pathlib_join p n\<close> is \<open>str(Path(p) / n)\<close>; \<open>py_float\<close> is \<open>float\<close> on a string
    (\<open>None\<close> for \<open>ValueError\<close>); \<open>py_str\<close> is \<open>str\<close> on a value that is not a string;
  \<^item> \<open>ydl_extract opts url\<close> is the run of \<open>YoutubeDL(opts)\<close>, \<open>extract_info\<close> and
    \<open>prepare_filename\<close>: the statuses it reports to progress hooks, in order, and the
    saved file name or the exception raised. The hooks only observe, so it is given
    the options without the \<open>progress_hooks\<close> entry;
  \<^item> \<open>image_open f\<close> is \<open>Image.open(f).convert("RGBA")\<close>: size and RGBA pixels;
  \<^item> \<open>save_formats\<close> are the format names Pillow has a save handler for (the keys of
    \<open>Image.SAVE\<close>), \<open>image_write\<close> an error of the encoder or the file system, and
    \<open>thumbnail_size original box\<close> the size \<open>Image.thumbnail\<close> gives an image of size
    \<open>original\<close> that it fits into \<open>box\<close>;
  \<^item> \<open>run_process cmd\<close> is \<open>subprocess.run(cmd, check=True)\<close> and \<open>pandoc_convert\<close> is
    \<open>pypandoc.convert_file\<close>: the exception raised, if any.
\<close>

record env =
  settings :: json
  getcwd :: "exn + string"
  os_nt :: bool
  nt_basename :: "string \<Rightarrow> string"
  nt_dirname :: "string \<Rightarrow> string"
  nt_splitext :: "string \<Rightarrow> string \<times> string"
  nt_join :: "string \<Rightarrow> string \<Rightarrow> string"
  pillow :: bool
  pandoc :: bool
  guess_type :: "string \<Rightarrow> string option"
  isfile :: "string \<Rightarrow> bool"
  pathlib_join :: "string \<Rightarrow> string \<Rightarrow> string"
  py_float :: "string \<Rightarrow> real option"
  py_str :: "json \<Rightarrow> string"
  ydl_extract :: "ydl_opts \<Rightarrow> string \<Rightarrow> hook_status list \<times> (exn + string)"
  image_open :: "string \<Rightarrow> exn + (nat \<times> nat) \<times> rgba list"
  save_formats :: "string list"
  thumbnail_size :: "nat \<times> nat \<Rightarrow> nat \<times> nat \<Rightarrow> nat \<times> nat"
  image_write :: "string \<Rightarrow> string \<Rightarrow> image \<Rightarrow> exn option"
  run_process :: "string list \<Rightarrow> exn option"
  pandoc_convert :: "string \<Rightarrow> string \<Rightarrow> string \<Rightarrow> exn option"

subsection \<open>\<open>os.path\<close> on the platform at hand\<close>

definition os_basename :: "env \<Rightarrow> string \<Rightarrow> string" where
  "os_basename E p = (if os_nt E then nt_basename E p else basename p)"

definition os_dirname :: "env \<Rightarrow> string \<Rightarrow> string" where
  "os_dirname E p = (if os_nt E then nt_dirname E p else dirname p)"

definition os_splitext :: "env \<Rightarrow> string \<Rightarrow> string \<times> string" where
  "os_splitext E p = (if os_nt E then nt_splitext E p else splitext p)"

definition os_join :: "env \<Rightarrow> string \<Rightarrow> string \<Rightarrow> string" where
  "os_join E a b = (if os_nt E then nt_join E a b else path_join a b)"

text \<open>\<open>os.path.join(a, b)\<close> for any value \<open>a\<close>: only a string is a path.\<close>

definition os_join_value :: "env \<Rightarrow> json \<Rightarrow> string \<Rightarrow> exn + string" where
  "os_join_value E a b =
     (case a of
        JStr s \<Rightarrow> Inr (os_join E s b)
      | other \<Rightarrow>
          Inl (TypeError (''expected str, bytes or os.PathLike object, not '' @ type_name a)))"

text \<open>\<open>str(v)\<close>, as an f-string formats \<open>v\<close>.\<close>

definition str_of :: "env \<Rightarrow> json \<Rightarrow> string" where
  "str_of E v = (case v of JStr s \<Rightarrow> s | other \<Rightarrow> py_str E v)"

text \<open>
  The chain \<open>x or settings.get("default_output") or os.getcwd()\<close> of \<open>yt_download\<close> and of
  the two download buttons: each operand is evaluated only when those before it are
  falsy, and the lookup and \<open>os.getcwd()\<close> can raise.
\<close>

definition or_default_output_or_cwd :: "env \<Rightarrow> json \<Rightarrow> exn + json" where
  "or_default_output_or_cwd E x =
     (if truthy x then Inr x
      else case py_get (settings E) ''default_output'' JNull of
             Inl e \<Rightarrow> Inl e
           | Inr v \<Rightarrow>
               if truthy v then Inr v
               else (case getcwd E of Inl e \<Rightarrow> Inl e | Inr d \<Rightarrow> Inr (JStr d)))"

text \<open>
  \<open>ffmpeg_exec\<close>: \<open>settings.get("ffmpeg_path", "").strip()\<close> needs a dict and a string in it.
\<close>

definition ffmpeg_exec :: "env \<Rightarrow> exn + string" where
  "ffmpeg_exec E =
     (case py_get (settings E) ''ffmpeg_path'' (JStr []) of
        Inl e \<Rightarrow> Inl e
      | Inr (JStr s) \<Rightarrow>
          (let p = strip s
           in if p \<noteq> []
              then Inr (pathlib_join E p (if os_nt E then ''ffmpeg.exe'' else ''ffmpeg''))
              else Inr ''ffmpeg'')
      | Inr other \<Rightarrow> Inl (no_attribute other ''strip''))"

section \<open>Signals emitter\<close>

text \<open>
  The two signals of \<open>Emitter\<close> as one stream of events, in emission order. A function
  that takes an optional emitter returns the events it emitted; with \<open>emitter = None\<close>
  every \<open>if emitter:\<close> block is skipped.
\<close>

datatype event = LogLine string | Progress real

datatype Emitter = Emitter

definition emit :: "Emitter option \<Rightarrow> event list \<Rightarrow> event list" where
  "emit emitter evs = (case emitter of None \<Rightarrow> [] | Some em \<Rightarrow> evs)"

section \<open>Worker utilities\<close>

text \<open>
  The \<open>wrapper\<close> closure of \<open>run_threaded\<close>: \<open>target\<close> is the outcome of \<open>target(*args)\<close>,
  \<open>on_done\<close> the optional callback. The result is the outcome of the thread's body
  together with the lines it printed.
\<close>

definition run_threaded_wrapper ::
  "exn + 'r \<Rightarrow> ('r \<Rightarrow> exn + unit) option \<Rightarrow> (exn + unit) \<times> string list" where
  "run_threaded_wrapper target on_done =
     (case target of
        Inl e \<Rightarrow> (Inr (), [''Background task error: '' @ exn_str e])
      | Inr result \<Rightarrow>
          (case on_done of
             None \<Rightarrow> (Inr (), [])
           | Some f \<Rightarrow>
               (case f result of
                  Inl e \<Rightarrow> (Inr (), [''Background task error: '' @ exn_str e])
                | Inr u \<Rightarrow> (Inr (), []))))"

section \<open>yt-dlp helpers\<close>

text \<open>
  The progress hook \<open>p_hook\<close> that \<open>build_ydl_opts_for_download\<close> installs when it is given
  an emitter: the events one status dictionary makes it emit.
\<close>

definition p_hook :: "env \<Rightarrow> hook_status \<Rightarrow> event list" where
  "p_hook E d =
     (if status d = Some ''downloading'' then
        (let p = remove_char CHR ''%''
                   (strip (case percent_str d of None \<Rightarrow> ''0%'' | Some t \<Rightarrow> t))
         in [case py_float E p of Some x \<Rightarrow> Progress x | None \<Rightarrow> Progress 0,
             LogLine (''Downloading: '' @ (case filename d of None \<Rightarrow> [] | Some f \<Rightarrow> f)
                      @ '' '' @ (case percent_str d of None \<Rightarrow> [] | Some t \<Rightarrow> t))])
      else if status d = Some ''finished'' then
        [Progress 100, LogLine ''Merging/processing...'']
      else [])"

text \<open>\<open>opts.update({...})\<close>: the keys are set one after the other.\<close>

definition dict_update :: "('k \<times> 'v) list \<Rightarrow> ('k \<times> 'v) list \<Rightarrow> ('k \<times> 'v) list" where
  "dict_update d kvs = fold (\<lambda>kv acc. dict_set (fst kv) (snd kv) acc) kvs d"

definition dict_get :: "('k \<times> 'v) list \<Rightarrow> 'k \<Rightarrow> 'v option" where
  "dict_get d k = map_of d k"

text \<open>\<open>settings.get("ffmpeg_path", "") or None\<close>.\<close>

definition ffmpeg_location :: "env \<Rightarrow> exn + optval" where
  "ffmpeg_location E =
     (case py_get (settings E) ''ffmpeg_path'' (JStr []) of
        Inl e \<Rightarrow> Inl e
      | Inr v \<Rightarrow> Inr (if truthy v then VJson v else VNone))"

text \<open>
  \<open>build_ydl_opts_for_download\<close>. The output template is joined first; each of the three
  branches reads \<open>ffmpeg_location\<close> while it builds the dictionary it updates with.
\<close>

definition build_ydl_opts_for_download ::
  "env \<Rightarrow> json \<Rightarrow> string \<Rightarrow> Emitter option \<Rightarrow> string option \<Rightarrow> exn + ydl_opts" where
  "build_ydl_opts_for_download E outdir fmt emitter cookiefile =
     (case os_join_value E outdir ''%(uploader)s - %(title)s.%(ext)s'' of
        Inl e \<Rightarrow> Inl e
      | Inr outtmpl \<Rightarrow>
        (let opts = [(''outtmpl'', VStr outtmpl),
                     (''noplaylist'', VBool False),
                     (''nocheckcertificate'', VBool True)];
             opts = (case emitter of
                       None \<Rightarrow> opts
                     | Some em \<Rightarrow> dict_set ''progress_hooks'' VHooks opts);
             opts = (case cookiefile of
                       None \<Rightarrow> opts
                     | Some c \<Rightarrow> if c \<noteq> [] then dict_set ''cookiefile'' (VStr c) opts else opts)
         in case ffmpeg_location E of
              Inl e \<Rightarrow> Inl e
            | Inr location \<Rightarrow>
                Inr (if fmt = ''mp3'' then
                       dict_update opts
                         [(''format'', VStr ''bestaudio/best''),
                          (''postprocessors'',
                             VList [VDict [(''key'', VStr ''FFmpegExtractAudio''),
                                           (''preferredcodec'', VStr ''mp3''),
                                           (''preferredquality'', VStr ''192'')]]),
                          (''prefer_ffmpeg'', VBool True),
                          (''postprocessor_args'', VList []),
                          (''ffmpeg_location'', location)]
                     else if fmt = ''mp4'' then
                       dict_update opts
                         [(''format'', VStr ''bestvideo+bestaudio/best''),
                          (''merge_output_format'', VStr ''mp4''),
                          (''ffmpeg_location'', location)]
                     else
                       dict_update opts
                         [(''format'', VStr ''best''),
                          (''ffmpeg_location'', location)])))"

text \<open>
  The body of the \<open>try\<close> block of \<open>yt_download\<close>: the events emitted, and the returned
  message or the exception that left the block. The hook runs on every status the
  downloader reports, when it was installed.
\<close>

definition yt_download_try ::
  "env \<Rightarrow> string \<Rightarrow> json \<Rightarrow> string \<Rightarrow> Emitter option \<Rightarrow> string option
     \<Rightarrow> event list \<times> (exn + string)" where
  "yt_download_try E url outdir fmt emitter cookiefile =
     (let started = emit emitter
            [LogLine (''Starting download: '' @ url @ '' '' @ arrow @ '' '' @ str_of E outdir
                      @ '' as '' @ fmt),
             Progress 0]
      in case build_ydl_opts_for_download E outdir fmt emitter cookiefile of
           Inl e \<Rightarrow> (started, Inl e)
         | Inr built \<Rightarrow>
             (let ydl_opts = filter (\<lambda>kv. snd kv \<noteq> VNone) built;
                  run = ydl_extract E
                          (filter (\<lambda>kv. fst kv \<noteq> ''progress_hooks'') ydl_opts) url;
                  hooked = (if dict_get ydl_opts ''progress_hooks'' = Some VHooks
                            then concat (map (p_hook E) (fst run)) else [])
              in case snd run of
                   Inl e \<Rightarrow> (started @ hooked, Inl e)
                 | Inr saved \<Rightarrow>
                     (started @ hooked
                        @ emit emitter [LogLine (''Saved: '' @ saved), Progress 100],
                      Inr (check_mark @ '' Download complete: '' @ url))))"

text \<open>
  \<open>yt_download\<close>: the events emitted, and the returned message or the exception the
  call raised. The output directory is settled before the \<open>try\<close> block is entered.
\<close>

definition yt_download ::
  "env \<Rightarrow> string \<Rightarrow> json \<Rightarrow> string \<Rightarrow> Emitter option \<Rightarrow> string option
     \<Rightarrow> event list \<times> (exn + string)" where
  "yt_download E url outdir fmt emitter cookiefile =
     (if url = [] \<or> strip url = [] then ([], Inr (cross_mark @ '' No URL provided''))
      else
        (case or_default_output_or_cwd E outdir of
           Inl e \<Rightarrow> ([], Inl e)
         | Inr outdir \<Rightarrow>
             (case yt_download_try E url outdir fmt emitter cookiefile of
                (evs, Inr msg) \<Rightarrow> (evs, Inr msg)
              | (evs, Inl e) \<Rightarrow>
                  (evs @ emit emitter
                           [LogLine (cross_mark @ '' Error: '' @ exn_str e), Progress 0],
                   Inr (cross_mark @ '' Error: '' @ exn_str e)))))"

section \<open>Conversion helpers\<close>

subsection \<open>The Pillow operations the image adapter calls\<close>

definition mode :: "image \<Rightarrow> string" where
  "mode img = (case pixels img of RGBA px \<Rightarrow> ''RGBA'' | RGB px \<Rightarrow> ''RGB'')"

text \<open>\<open>Image.new("RGB", size, color)\<close>.\<close>

definition image_new_rgb :: "nat \<times> nat \<Rightarrow> rgb \<Rightarrow> image" where
  "image_new_rgb sz color =
     \<lparr>img_size = sz, pixels = RGB (replicate (fst sz * snd sz) color)\<rparr>"

text \<open>\<open>img.split()[3]\<close>: the fourth band; an image of three bands has none.\<close>

definition alpha_band :: "image \<Rightarrow> exn + nat list" where
  "alpha_band img =
     (case pixels img of
        RGBA px \<Rightarrow> Inr (map (\<lambda>q. snd (snd (snd q))) px)
      | RGB px \<Rightarrow> Inl (ToolError ''tuple index out of range''))"

text \<open>
  Pillow's 8-bit blend of a destination value \<open>d\<close> and a source value \<open>s\<close> under a mask
  value \<open>m\<close>: \<open>(d * (255 - m) + s * m) / 255\<close>, rounded by shifts.
\<close>

definition blend :: "nat \<Rightarrow> nat \<Rightarrow> nat \<Rightarrow> nat" where
  "blend m d s =
     (let t = d * (255 - m) + s * m + 128
      in (t div 256 + t) div 256)"

definition paste_pixel :: "rgb \<Rightarrow> rgba \<Rightarrow> nat \<Rightarrow> rgb" where
  "paste_pixel d s m =
     (case d of (dr, dg, db) \<Rightarrow>
        (case s of (sr, sg, sb, sa) \<Rightarrow> (blend m dr sr, blend m dg sg, blend m db sb)))"

text \<open>
  \<open>background.paste(img, mask=alpha)\<close> for an RGB \<open>background\<close> and an RGBA \<open>img\<close> of the
  same size: every pixel of \<open>background\<close> is blended with the colour of \<open>img\<close>.
\<close>

definition paste :: "image \<Rightarrow> image \<Rightarrow> nat list \<Rightarrow> image" where
  "paste background img alpha =
     (case (pixels background, pixels img) of
        (RGB bg, RGBA px) \<Rightarrow>
          background\<lparr>pixels := RGB (map (\<lambda>t. paste_pixel (fst t) (fst (snd t)) (snd (snd t)))
                                      (zip bg (zip px alpha)))\<rparr>
      | other \<Rightarrow> background)"

text \<open>
  \<open>image.save(outfile, format=fmt)\<close>: Pillow looks the format name up among its save
  handlers (\<open>SAVE[format.upper()]\<close>) and raises \<open>KeyError\<close> for a name it has none for.
\<close>

definition image_save :: "env \<Rightarrow> image \<Rightarrow> string \<Rightarrow> string \<Rightarrow> exn + artifact" where
  "image_save E img outfile fmt =
     (if upper fmt \<notin> set (save_formats E) then Inl (KeyError (upper fmt))
      else case image_write E outfile (upper fmt) img of
             Some e \<Rightarrow> Inl e
           | None \<Rightarrow> Inr (ImageFile (upper fmt) img))"

text \<open>
  \<open>image.save(outfile, format="ICO", sizes=sizes)\<close>. Of the requested sizes Pillow's
  ICO writer keeps those that exceed neither the image nor 256 pixels (its
  documentation: ``any sizes bigger than the original size or 256 will be ignored''),
  and writes one frame for each of them into the one file: the image itself for its
  own size, else a copy that \<open>Image.thumbnail\<close> has fitted into the requested size, which
  keeps the aspect ratio of the image. (Pillow sorts the sizes and drops duplicates
  first; the list the program passes is increasing already.)
\<close>

definition ico_fits :: "nat \<times> nat \<Rightarrow> nat \<times> nat \<Rightarrow> bool" where
  "ico_fits original sz =
     (fst sz \<le> fst original \<and> snd sz \<le> snd original \<and> fst sz \<le> 256 \<and> snd sz \<le> 256)"

definition ico_frame_size :: "env \<Rightarrow> nat \<times> nat \<Rightarrow> nat \<times> nat \<Rightarrow> nat \<times> nat" where
  "ico_frame_size E original sz = (if sz = original then original else thumbnail_size E original sz)"

definition image_save_ico ::
  "env \<Rightarrow> image \<Rightarrow> string \<Rightarrow> (nat \<times> nat) list \<Rightarrow> exn + artifact" where
  "image_save_ico E img outfile sizes =
     (if ''ICO'' \<notin> set (save_formats E) then Inl (KeyError ''ICO'')
      else case image_write E outfile ''ICO'' img of
             Some e \<Rightarrow> Inl e
           | None \<Rightarrow>
               Inr (IcoFile img
                      (map (ico_frame_size E (img_size img))
                         (filter (ico_fits (img_size img)) sizes))))"

subsection \<open>The adapters\<close>

definition convert_image_with_pillow ::
  "env \<Rightarrow> string \<Rightarrow> string \<Rightarrow> string \<Rightarrow> exn + artifact" where
  "convert_image_with_pillow E infile outfile target_format =
     (if \<not> pillow E then Inl (RuntimeError ''Pillow is not installed (pip install Pillow)'')
      else case image_open E infile of
        Inl e \<Rightarrow> Inl e
      | Inr opened \<Rightarrow>
          (let img = \<lparr>img_size = fst opened, pixels = RGBA (snd opened)\<rparr>;
               fmt = lower target_format
           in if fmt = ''ico'' then
                image_save_ico E img outfile
                  [(16, 16), (32, 32), (48, 48), (64, 64), (128, 128), (256, 256)]
              else if fmt \<in> set [''jpg'', ''jpeg''] \<and> mode img \<in> set [''RGBA'', ''LA''] then
                (case alpha_band img of
                   Inl e \<Rightarrow> Inl e
                 | Inr alpha \<Rightarrow>
                     image_save E
                       (paste (image_new_rgb (img_size img) (255, 255, 255)) img alpha)
                       outfile (upper fmt))
              else image_save E img outfile (upper fmt)))"

definition convert_with_ffmpeg_cmd :: "env \<Rightarrow> string \<Rightarrow> string \<Rightarrow> exn + artifact" where
  "convert_with_ffmpeg_cmd E infile outfile =
     (case ffmpeg_exec E of
        Inl e \<Rightarrow> Inl e
      | Inr ff \<Rightarrow>
          (let cmd = [ff, ''-y'', ''-i'', infile, outfile]
           in case run_process E cmd of
                Some e \<Rightarrow> Inl e
              | None \<Rightarrow> Inr (Transcoded cmd)))"

definition convert_document_with_pandoc ::
  "env \<Rightarrow> string \<Rightarrow> string \<Rightarrow> string \<Rightarrow> exn + artifact" where
  "convert_document_with_pandoc E infile outfile target_format =
     (if \<not> pandoc E then Inl (RuntimeError ''pypandoc not installed or pandoc not available'')
      else case pandoc_convert E infile target_format outfile of
             Some e \<Rightarrow> Inl e
           | None \<Rightarrow> Inr (DocFile infile target_format))"

subsection \<open>Dispatch\<close>

datatype adapter = RasterImage | Document | AudioVideo

text \<open>\<open>mime and mime.startswith(p)\<close> for the guessed type \<open>mime\<close>.\<close>

definition mime_is :: "string option \<Rightarrow> string \<Rightarrow> bool" where
  "mime_is mime p = (case mime of None \<Rightarrow> False | Some m \<Rightarrow> m \<noteq> [] \<and> startswith m p)"

text \<open>
  The \<open>if\<close>/\<open>elif\<close> chain of \<open>convert_generic\<close>: which helper the branch taken calls.
\<close>

definition dispatch :: "env \<Rightarrow> string option \<Rightarrow> string \<Rightarrow> adapter" where
  "dispatch E mime target_format =
     (if mime_is mime ''image'' then RasterImage
      else if lower target_format \<in> set [''pdf'', ''docx'', ''txt'', ''md'', ''rtf''] \<and> pandoc E
        then Document
      else if mime_is mime ''video'' \<or> mime_is mime ''audio'' then AudioVideo
      else AudioVideo)"

definition run_adapter ::
  "env \<Rightarrow> adapter \<Rightarrow> string \<Rightarrow> string \<Rightarrow> string \<Rightarrow> exn + artifact" where
  "run_adapter E a infile outfile target_format =
     (case a of
        RasterImage \<Rightarrow> convert_image_with_pillow E infile outfile target_format
      | Document \<Rightarrow> convert_document_with_pandoc E infile outfile target_format
      | AudioVideo \<Rightarrow> convert_with_ffmpeg_cmd E infile outfile)"

text \<open>
  The body of the \<open>try\<close> block of \<open>convert_generic\<close>: the events emitted, and the returned
  message with what was written, or the exception that left the block.
\<close>

definition convert_generic_try ::
  "env \<Rightarrow> string \<Rightarrow> string \<Rightarrow> string \<Rightarrow> Emitter option
     \<Rightarrow> event list \<times> (exn + string \<times> artifact)" where
  "convert_generic_try E infile outfile target_format emitter =
     (let mime = guess_type E infile;
          started = emit emitter
            [LogLine (''Converting '' @ os_basename E infile @ '' '' @ arrow @ '' ''
                      @ os_basename E outfile)]
      in case run_adapter E (dispatch E mime target_format) infile outfile target_format of
           Inl e \<Rightarrow> (started, Inl e)
         | Inr written \<Rightarrow>
             (started @ emit emitter [LogLine (check_mark @ '' Converted: '' @ outfile)],
              Inr (check_mark @ '' Converted to '' @ target_format, written)))"

text \<open>
  \<open>convert_generic\<close>: the events, the outcome of the call (the message returned, or an
  exception) and the artifact written, if any.
\<close>

definition convert_generic ::
  "env \<Rightarrow> string \<Rightarrow> string \<Rightarrow> string \<Rightarrow> Emitter option
     \<Rightarrow> event list \<times> (exn + string) \<times> artifact option" where
  "convert_generic E infile outfile target_format emitter =
     (case convert_generic_try E infile outfile target_format emitter of
        (evs, Inr (msg, written)) \<Rightarrow> (evs, Inr msg, Some written)
      | (evs, Inl e) \<Rightarrow>
          (evs @ emit emitter [LogLine (cross_mark @ '' Conversion error: '' @ exn_str e)],
           Inr (cross_mark @ '' Conversion error: '' @ exn_str e), None))"

text \<open>
  \<open>convert_generic_wrapper\<close>, the job the converter tab runs. It emits on its emitter
  before its \<open>try\<close> block and without asking whether there is one: with \<open>None\<close> for the
  emitter the first line raises.
\<close>

definition convert_generic_wrapper ::
  "env \<Rightarrow> string \<Rightarrow> string \<Rightarrow> string \<Rightarrow> Emitter option
     \<Rightarrow> event list \<times> (exn + string) \<times> artifact option" where
  "convert_generic_wrapper E infile outfile target emitter =
     (case emitter of
        None \<Rightarrow> ([], Inl (no_attribute JNull ''log''), None)
      | Some em \<Rightarrow>
        (let started =
               [LogLine (''Starting conversion: '' @ os_basename E infile @ '' '' @ arrow
                         @ '' '' @ os_basename E outfile),
                Progress 0]
         in case convert_generic E infile outfile target emitter of
              (evs, Inr res, written) \<Rightarrow>
                (started @ evs @ [Progress 80, LogLine res, Progress 100], Inr res, written)
            | (evs, Inl e, written) \<Rightarrow>
                (started @ evs
                   @ [LogLine (cross_mark @ '' Error: '' @ exn_str e), Progress 0],
                 Inr (cross_mark @ '' Error: '' @ exn_str e), written)))"

section \<open>The main window\<close>

text \<open>
  The widgets the two start buttons read and write, and the worker threads started so
  far: each \<open>run_threaded\<close> call is recorded with the job it runs and its arguments.
  The format box of the downloader tab is a combo box that is not editable and holds
  the two items \<open>mp4\<close> and \<open>mp3\<close>.
\<close>

datatype yt_format = Mp4 | Mp3

fun format_text :: "yt_format \<Rightarrow> string" where
  "format_text Mp4 = ''mp4''"
| "format_text Mp3 = ''mp3''"

datatype job =
    YtDownload string json string "string option"
  | Conversion string string string

record gui =
  yt_url :: string
  yt_format_box :: yt_format
  yt_cookie :: string
  yt_out_display :: string
  yt_log :: "string list"
  yt_progress :: int
  conv_input :: string
  conv_format :: string
  conv_out :: string
  conv_log :: "string list"
  conv_progress :: int
  threads :: "job list"

text \<open>
  \<open>start_youtube_download\<close>: the window it leaves, or the exception that leaves the
  handler. The output folder is settled before the URL is looked at.
\<close>

definition start_youtube_download :: "env \<Rightarrow> gui \<Rightarrow> exn + gui" where
  "start_youtube_download E g =
     (let url = strip (yt_url g);
          fmt = format_text (yt_format_box g)
      in case or_default_output_or_cwd E (JStr (strip (yt_out_display g))) of
           Inl e \<Rightarrow> Inl e
         | Inr out \<Rightarrow>
             (let cookie = (if strip (yt_cookie g) \<noteq> [] then Some (strip (yt_cookie g))
                            else None)
              in if url = []
                 then Inr (g\<lparr>yt_log := yt_log g @ [cross_mark @ '' Please paste a URL.'']\<rparr>)
                 else Inr (g\<lparr>threads := threads g @ [YtDownload url out fmt cookie]\<rparr>)))"

text \<open>
  \<open>start_conversion\<close>. The output folder is the chain
  \<open>conv_out.strip() or os.path.dirname(infile) or settings.get("default_output")\<close>.
\<close>

definition start_conversion :: "env \<Rightarrow> gui \<Rightarrow> exn + gui" where
  "start_conversion E g =
     (let infile = strip (conv_input g)
      in if infile = [] \<or> \<not> isfile E infile
         then Inr (g\<lparr>conv_log := conv_log g @ [cross_mark @ '' Select a valid input file.'']\<rparr>)
         else
           (let target = strip (conv_format g);
                out_folder =
                  (if strip (conv_out g) \<noteq> [] then Inr (JStr (strip (conv_out g)))
                   else if os_dirname E infile \<noteq> [] then Inr (JStr (os_dirname E infile))
                   else py_get (settings E) ''default_output'' JNull);
                base = fst (os_splitext E (os_basename E infile))
            in case out_folder of
                 Inl e \<Rightarrow> Inl e
               | Inr folder \<Rightarrow>
                   (case os_join_value E folder (base @ ''.'' @ target) of
                      Inl e \<Rightarrow> Inl e
                    | Inr outfile \<Rightarrow>
                        Inr (g\<lparr>threads := threads g @ [Conversion infile outfile target]\<rparr>))))"

text \<open>
  The classification \<open>browse_conv_input\<close> makes of the guessed type of a file, with the
  names the specification gives the categories.
\<close>

datatype category = Video | Audio | Image | DocumentCat | Unknown

definition classify :: "string option \<Rightarrow> category" where
  "classify mt =
     (if mime_is mt ''video'' then Video
      else if mime_is mt ''audio'' then Audio
      else if mime_is mt ''image'' then Image
      else if mime_is mt ''application'' \<or> mt = Some ''text/plain'' then DocumentCat
      else Unknown)"

section \<open>The specification's wording, for comparison\<close>

text \<open>
  The dispatch policy as section 4.4 of the specification words it, over the categories:
  rule 1 asks that the raster-image adapter be capable, rule 2 that the document adapter
  be available.
\<close>

definition resolve_spec :: "bool \<Rightarrow> bool \<Rightarrow> category \<Rightarrow> string \<Rightarrow> adapter" where
  "resolve_spec raster_capable document_available cat target_format =
     (if cat = Image \<and> raster_capable then RasterImage
      else if target_format \<in> set [''pdf'', ''docx'', ''txt'', ''md'', ''rtf'']
              \<and> document_available then Document
      else if cat = Video \<or> cat = Audio then AudioVideo
      else AudioVideo)"

text \<open>
  Of the two formats a fetch job can carry, \<open>mp3\<close> is the audio format.
\<close>

fun audio_format :: "yt_format \<Rightarrow> bool" where
  "audio_format Mp3 = True"
| "audio_format Mp4 = False"

section \<open>Concrete environments\<close>

text \<open>
  The format names Pillow registers a save handler under. \<open>JPG\<close> is not among them: it
  is a file extension, which Pillow maps to \<open>JPEG\<close> only when no format is given.
\<close>

definition pillow_SAVE :: "string list" where
  "pillow_SAVE =
     [''BLP'', ''BMP'', ''BUFR'', ''DDS'', ''DIB'', ''EPS'', ''GIF'', ''GRIB'', ''HDF5'',
      ''ICNS'', ''ICO'', ''IM'', ''JPEG'', ''JPEG2000'', ''MPO'', ''MSP'', ''PALM'', ''PCX'',
      ''PDF'', ''PNG'', ''PPM'', ''SGI'', ''SPIDER'', ''TGA'', ''TIFF'', ''WEBP'', ''WMF'',
      ''XBM'']"

text \<open>
  A POSIX machine on which every optional library and tool is installed and works:
  \<open>photo.png\<close> is a 2 by 1 image with one opaque red and one transparent blue pixel,
  \<open>icon.png\<close> a 32 by 32 opaque black square, \<open>poster.png\<close> a 512 by 512 opaque white
  square, \<open>clip.mp4\<close> a video. (The \<open>nt_\<close> functions are not consulted on this machine. Its
  \<open>thumbnail_size\<close> is consulted for the two square images only, which fit a square box
  exactly.)
\<close>

definition black_square :: "rgba list" where
  "black_square = replicate 1024 (0, 0, 0, 255)"

definition white_poster :: "rgba list" where
  "white_poster = replicate (512 * 512) (255, 255, 255, 255)"

definition sample_env :: env where
  "sample_env =
     \<lparr>settings = JObj [(''ffmpeg_path'', JStr []),
                       (''default_output'', JStr ''/home/user/Downloads'')],
      getcwd = Inr ''/home/user'',
      os_nt = False,
      nt_basename = basename,
      nt_dirname = dirname,
      nt_splitext = splitext,
      nt_join = path_join,
      pillow = True,
      pandoc = True,
      guess_type = (\<lambda>p. if endswith p ''.png'' then Some ''image/png''
                         else if endswith p ''.mp4'' then Some ''video/mp4''
                         else None),
      isfile = (\<lambda>p. p \<in> set [''clip.mp4'', ''photo.png'', ''icon.png'', ''poster.png'']),
      pathlib_join = path_join,
      py_float = (\<lambda>t. if t = ''50.0'' then Some 50 else None),
      py_str = type_name,
      ydl_extract = (\<lambda>opts url.
         ([\<lparr>status = Some ''downloading'', percent_str = Some '' 50.0%'',
            filename = Some ''a.mp4''\<rparr>,
           \<lparr>status = Some ''finished'', percent_str = None, filename = Some ''a.mp4''\<rparr>],
          Inr ''/home/user/Downloads/Uploader - Title.mp4'')),
      image_open = (\<lambda>f. if f = ''photo.png'' then Inr ((2, 1), [(255, 0, 0, 255), (0, 0, 255, 0)])
                         else if f = ''icon.png'' then Inr ((32, 32), black_square)
                         else if f = ''poster.png'' then Inr ((512, 512), white_poster)
                         else Inl (ToolError ''cannot identify image file'')),
      save_formats = pillow_SAVE,
      thumbnail_size = (\<lambda>original box. box),
      image_write = (\<lambda>outfile fmt img. None),
      run_process = (\<lambda>cmd. None),
      pandoc_convert = (\<lambda>infile fmt outfile. None)\<rparr>"

text \<open>The same machine without ffmpeg: starting the process fails.\<close>

definition no_ffmpeg_env :: env where
  "no_ffmpeg_env =
     sample_env\<lparr>run_process :=
       (\<lambda>cmd. Some (ToolError ''[Errno 2] No such file or directory: ffmpeg''))\<rparr>"

text \<open>
  The same machine without ffmpeg, fetching: the download itself finishes, and yt-dlp
  then fails in the step that needs ffmpeg.
\<close>

definition no_ffmpeg_fetch_env :: env where
  "no_ffmpeg_fetch_env =
     sample_env\<lparr>ydl_extract := (\<lambda>opts url.
       ([\<lparr>status = Some ''finished'', percent_str = None, filename = Some ''a.webm''\<rparr>],
        Inl (ToolError ''ERROR: Postprocessing: ffprobe and ffmpeg not found'')))\<rparr>"

text \<open>The same machine without Pillow.\<close>

definition no_pillow_env :: env where
  "no_pillow_env = sample_env\<lparr>pillow := False\<rparr>"

text \<open>
  The same machine after the default output folder was set to the empty string and the
  working directory of the process was removed.
\<close>

definition removed_cwd_env :: env where
  "removed_cwd_env =
     sample_env\<lparr>settings := JObj [(''ffmpeg_path'', JStr []), (''default_output'', JStr [])],
                getcwd := Inl (ToolError ''[Errno 2] No such file or directory'')\<rparr>"

text \<open>
  A main window with two spaces for a URL and nothing else typed in, and one ready to
  convert \<open>clip.mp4\<close>.
\<close>

definition blank_gui :: gui where
  "blank_gui =
     \<lparr>yt_url = ''  '', yt_format_box = Mp4, yt_cookie = [], yt_out_display = [],
      yt_log = [], yt_progress = 0,
      conv_input = [], conv_format = ''mp3'', conv_out = [], conv_log = [],
      conv_progress = 0, threads = []\<rparr>"

definition clip_gui :: gui where
  "clip_gui = blank_gui\<lparr>conv_input := ''clip.mp4'', conv_out := ''dir''\<rparr>"

section \<open>Properties\<close>

subsection \<open>Dictionaries\<close>

lemma map_of_dict_set: "map_of (dict_set k v d) = (map_of d)(k \<mapsto> v)"
  by (induction d) auto

lemma dict_set_keys: "fst ` set (dict_set k v d) = insert k (fst ` set d)"
  by (simp add: dom_map_of_conv_image_fst [symmetric] map_of_dict_set)

lemma dict_update_Cons:
  "dict_update d (kv # kvs) = dict_update (dict_set (fst kv) (snd kv) d) kvs"
  by (simp add: dict_update_def)

lemma map_of_dict_update: "map_of (dict_update d kvs) = map_of d ++ map_of (rev kvs)"
proof (induction kvs arbitrary: d)
  case Nil
  then show ?case by (simp add: dict_update_def)
next
  case (Cons kv kvs)
  have "map_of (dict_update d (kv # kvs))
      = (map_of d)(fst kv \<mapsto> snd kv) ++ map_of (rev kvs)"
    by (simp only: dict_update_Cons Cons.IH map_of_dict_set)
  also have "\<dots> = map_of d ++ (map_of (rev kvs @ [kv]))"
    by (cases kv) (auto simp: fun_eq_iff map_add_def split: option.splits)
  finally show ?case by simp
qed

lemma filter_key_dict_set_same:
  "filter (\<lambda>kv. fst kv \<noteq> k) (dict_set k v d) = filter (\<lambda>kv. fst kv \<noteq> k) d"
  by (induction d) auto

lemma filter_key_dict_set_other:
  "k' \<noteq> k \<Longrightarrow>
   filter (\<lambda>kv. fst kv \<noteq> k) (dict_set k' v d) = dict_set k' v (filter (\<lambda>kv. fst kv \<noteq> k) d)"
  by (induction d) auto

lemma filter_key_dict_update:
  "k \<notin> fst ` set kvs \<Longrightarrow>
   filter (\<lambda>kv. fst kv \<noteq> k) (dict_update d kvs) = dict_update (filter (\<lambda>kv. fst kv \<noteq> k) d) kvs"
proof (induction kvs arbitrary: d)
  case Nil
  then show ?case by (simp add: dict_update_def)
next
  case (Cons kv kvs)
  then have ne: "fst kv \<noteq> k" and rest: "k \<notin> fst ` set kvs" by auto
  let ?P = "\<lambda>kv. fst kv \<noteq> k"
  have "filter ?P (dict_update d (kv # kvs))
      = filter ?P (dict_update (dict_set (fst kv) (snd kv) d) kvs)"
    by (simp only: dict_update_Cons)
  also have "\<dots> = dict_update (filter ?P (dict_set (fst kv) (snd kv) d)) kvs"
    by (rule Cons.IH [OF rest])
  also have "\<dots> = dict_update (dict_set (fst kv) (snd kv) (filter ?P d)) kvs"
    by (simp only: filter_key_dict_set_other [OF ne])
  also have "\<dots> = dict_update (filter ?P d) (kv # kvs)"
    by (simp only: dict_update_Cons)
  finally show ?case .
qed

subsection \<open>Evaluating \<open>strip\<close>\<close>

lemmas strip_eval = strip_def lstrip_tokens.simps whitespace_def startswith_def

subsection \<open>Progress of a failed job\<close>

text \<open>
  Claim C1 at a conversion whose only adapter fails: \<open>clip.mp4\<close> to \<open>mp3\<close> on a machine
  without ffmpeg. \<open>convert_generic\<close> turns the exception into its return value, so
  \<open>convert_generic_wrapper\<close> takes its success path: the failed job emits the error line
  twice, then \<open>Progress 80\<close> and \<open>Progress 100\<close>, and never \<open>Progress 0\<close> after the failure.
\<close>

theorem convert_failure_reaches_100:
  "convert_generic_wrapper no_ffmpeg_env ''clip.mp4'' ''dir/clip.mp3'' ''mp3'' (Some Emitter) =
     ([LogLine (''Starting conversion: clip.mp4 '' @ arrow @ '' clip.mp3''),
       Progress 0,
       LogLine (''Converting clip.mp4 '' @ arrow @ '' clip.mp3''),
       LogLine (cross_mark @ '' Conversion error: [Errno 2] No such file or directory: ffmpeg''),
       Progress 80,
       LogLine (cross_mark @ '' Conversion error: [Errno 2] No such file or directory: ffmpeg''),
       Progress 100],
      Inr (cross_mark @ '' Conversion error: [Errno 2] No such file or directory: ffmpeg''),
      None)"
  by (simp add: convert_generic_wrapper_def convert_generic_def convert_generic_try_def
      run_adapter_def dispatch_def convert_with_ffmpeg_cmd_def ffmpeg_exec_def
      no_ffmpeg_env_def sample_env_def emit_def mime_is_def startswith_def endswith_def
      os_basename_def basename_def not_sep_def strip_eval Let_def lower_def lower_char_def)

text \<open>
  A failed fetch does end with the error line and \<open>Progress 0\<close>; when the download itself
  finished before the failure, the progress hook has emitted \<open>Progress 100\<close> by then.
\<close>

lemma fetch_failure_after_100:
  "yt_download no_ffmpeg_fetch_env ''https://example.org/v'' (JStr ''/tmp'') ''mp3''
     (Some Emitter) None =
     ([LogLine (''Starting download: https://example.org/v '' @ arrow @ '' /tmp as mp3''),
       Progress 0,
       Progress 100,
       LogLine ''Merging/processing...'',
       LogLine (cross_mark @ '' Error: ERROR: Postprocessing: ffprobe and ffmpeg not found''),
       Progress 0],
      Inr (cross_mark @ '' Error: ERROR: Postprocessing: ffprobe and ffmpeg not found''))"
  by (simp add: yt_download_def yt_download_try_def build_ydl_opts_for_download_def
      or_default_output_or_cwd_def os_join_value_def str_of_def Let_def
      dict_update_def dict_get_def ffmpeg_location_def p_hook_def no_ffmpeg_fetch_env_def
      sample_env_def emit_def strip_eval)

subsection \<open>Exceptions and the adapter boundary\<close>

text \<open>
  Claim C2 at a fetch without an output directory, on a machine whose default output
  folder is empty and whose working directory is gone. The line that settles the
  output directory stands before the \<open>try\<close> block of \<open>yt_download\<close>: the exception
  \<open>os.getcwd()\<close> raises there is not turned into a message, \<open>yt_download\<close> raises it.
\<close>

theorem yt_download_raises_before_try:
  "yt_download removed_cwd_env ''https://example.org/v'' JNull ''mp4'' None None =
     ([], Inl (ToolError ''[Errno 2] No such file or directory''))"
  by (simp add: yt_download_def or_default_output_or_cwd_def removed_cwd_env_def sample_env_def
      strip_eval)

text \<open>
  The same line raises when the settings file held a JSON list in which both key names
  are found, which \<open>load_settings\<close> hands back as the settings: a list has no \<open>get\<close>.
\<close>

lemma yt_download_raises_on_list_settings:
  "yt_download
     (sample_env\<lparr>settings := load_settings ''/home/user/Downloads'' True
                     (Inr (JArr [JStr ''ffmpeg_path'', JStr ''default_output'']))\<rparr>)
     ''https://example.org/v'' JNull ''mp4'' None None =
     ([], Inl (no_attribute (JArr [JStr ''ffmpeg_path'', JStr ''default_output'']) ''get''))"
  by (simp add: yt_download_def or_default_output_or_cwd_def sample_env_def strip_eval
      load_settings_def DEFAULT_SETTINGS_def)

text \<open>
  What does hold: \<open>convert_generic\<close>, whose whole body is its \<open>try\<close> block, returns a
  message whatever happens; so does \<open>yt_download\<close> when it is given an output directory;
  and the body of a worker thread ends normally whatever its target or its callback
  raise.
\<close>

lemma convert_generic_returns_message:
  "\<exists>msg. fst (snd (convert_generic E infile outfile target_format emitter)) = Inr msg"
  by (auto simp: convert_generic_def split: prod.splits sum.splits)

lemma yt_download_returns_message:
  "truthy outdir \<Longrightarrow> \<exists>msg. snd (yt_download E url outdir fmt emitter cookiefile) = Inr msg"
  by (auto simp: yt_download_def or_default_output_or_cwd_def split: prod.splits sum.splits)

lemma worker_ends_normally: "fst (run_threaded_wrapper target on_done) = Inr ()"
  by (auto simp: run_threaded_wrapper_def split: sum.splits option.splits)

subsection \<open>Dispatch\<close>

text \<open>
  The image test of \<open>convert_generic\<close> and the image category of the classifier agree:
  a guessed type cannot start with \<open>image\<close> and with \<open>video\<close> or \<open>audio\<close> at once.
\<close>

lemma classify_image: "classify mime = Image \<longleftrightarrow> mime_is mime ''image''"
  by (cases mime) (auto simp: classify_def mime_is_def startswith_def)

text \<open>
  Claim C3, as the code has it. The dispatch of \<open>convert_generic\<close> follows three rules
  in order: a source of the Image category goes to the raster-image adapter, whether or
  not Pillow is present; otherwise a target whose lower-cased name is in the document
  allow-list goes to the document adapter when pandoc is available; every other pair
  goes to the audio/video adapter. So a source of Unknown category goes to the
  audio/video adapter unless rule two sends it to the document adapter; and an image
  without Pillow is not passed on to another adapter: the conversion ends with the
  error that Pillow is not installed.
\<close>

theorem dispatch_policy:
  "dispatch E mime target_format =
     (if classify mime = Image then RasterImage
      else if lower target_format \<in> set [''pdf'', ''docx'', ''txt'', ''md'', ''rtf''] \<and> pandoc E
        then Document
      else AudioVideo)
   \<and> (classify mime = Unknown \<longrightarrow>
        dispatch E mime target_format =
          (if lower target_format \<in> set [''pdf'', ''docx'', ''txt'', ''md'', ''rtf''] \<and> pandoc E
           then Document else AudioVideo))
   \<and> (classify (guess_type E infile) = Image \<longrightarrow> \<not> pillow E \<longrightarrow>
        snd (convert_generic E infile outfile target_format emitter) =
          (Inr (cross_mark @ '' Conversion error: Pillow is not installed (pip install Pillow)''),
           None))"
proof -
  have 1: "dispatch E mime target_format =
     (if classify mime = Image then RasterImage
      else if lower target_format \<in> set [''pdf'', ''docx'', ''txt'', ''md'', ''rtf''] \<and> pandoc E
        then Document
      else AudioVideo)"
    by (simp only: classify_image dispatch_def if_cancel)
  have 2: "classify mime = Unknown \<longrightarrow>
        dispatch E mime target_format =
          (if lower target_format \<in> set [''pdf'', ''docx'', ''txt'', ''md'', ''rtf''] \<and> pandoc E
           then Document else AudioVideo)"
    by (simp add: 1)
  have 3: "classify (guess_type E infile) = Image \<longrightarrow> \<not> pillow E \<longrightarrow>
        snd (convert_generic E infile outfile target_format emitter) =
          (Inr (cross_mark @ '' Conversion error: Pillow is not installed (pip install Pillow)''),
           None)"
  proof (intro impI)
    assume img: "classify (guess_type E infile) = Image" and np: "\<not> pillow E"
    from img have "dispatch E (guess_type E infile) target_format = RasterImage"
      by (simp only: classify_image dispatch_def if_True)
    with np have "run_adapter E (dispatch E (guess_type E infile) target_format) infile outfile
        target_format = Inl (RuntimeError ''Pillow is not installed (pip install Pillow)'')"
      by (simp add: run_adapter_def convert_image_with_pillow_def)
    then show "snd (convert_generic E infile outfile target_format emitter) =
          (Inr (cross_mark @ '' Conversion error: Pillow is not installed (pip install Pillow)''),
           None)"
      by (simp add: convert_generic_def convert_generic_try_def Let_def)
  qed
  from 1 2 3 show ?thesis by blast
qed

text \<open>
  The rules at an image without Pillow, at a file of unknown type converted to \<open>pdf\<close>
  and to \<open>mp3\<close>.
\<close>

theorem dispatch_policy_witness:
  "dispatch no_pillow_env (Some ''image/png'') ''pdf'' = RasterImage
   \<and> dispatch sample_env None ''pdf'' = Document
   \<and> dispatch sample_env None ''mp3'' = AudioVideo
   \<and> snd (convert_generic no_pillow_env ''photo.png'' ''dir/photo.pdf'' ''pdf'' None) =
        (Inr (cross_mark @ '' Conversion error: Pillow is not installed (pip install Pillow)''),
         None)"
proof -
  have c: "classify (Some ''image/png'') = Image" "classify None = Unknown"
    by (simp_all add: classify_def mime_is_def startswith_def)
  have g: "guess_type no_pillow_env ''photo.png'' = Some ''image/png''"
    by (simp add: no_pillow_env_def sample_env_def endswith_def startswith_def)
  have p: "\<not> pillow no_pillow_env" "pandoc sample_env"
    by (simp_all add: no_pillow_env_def sample_env_def)
  have l: "lower ''pdf'' = ''pdf''" "lower ''mp3'' = ''mp3''"
    by (simp_all add: lower_def lower_char_def)
  show ?thesis
    using dispatch_policy [of no_pillow_env "Some ''image/png''" "''pdf''" "''photo.png''"
        "''dir/photo.pdf''" None]
      dispatch_policy [of sample_env None "''pdf''" "''photo.png''" "''dir/photo.pdf''" None]
      dispatch_policy [of sample_env None "''mp3''" "''photo.png''" "''dir/photo.pdf''" None]
    by (simp add: c g p l)
qed

text \<open>
  The claim as the specification states it fails twice. Without Pillow and with pandoc,
  the policy of the specification sends \<open>photo.png\<close> with target \<open>pdf\<close> to the document
  adapter (rule 1 does not apply, rule 2 does), the code sends it to the raster-image
  adapter. And a source of Unknown category, the file \<open>notes\<close> without extension, with
  target \<open>pdf\<close> goes to the document adapter, not to the audio/video adapter.
\<close>

theorem dispatch_counterexample:
  "dispatch no_pillow_env (guess_type no_pillow_env ''photo.png'') ''pdf'' = RasterImage
   \<and> resolve_spec (pillow no_pillow_env) (pandoc no_pillow_env)
        (classify (guess_type no_pillow_env ''photo.png'')) ''pdf'' = Document
   \<and> classify (guess_type sample_env ''notes'') = Unknown
   \<and> dispatch sample_env (guess_type sample_env ''notes'') ''pdf'' = Document"
  by (simp add: dispatch_def resolve_spec_def classify_def mime_is_def startswith_def
      endswith_def no_pillow_env_def sample_env_def lower_def lower_char_def)

subsection \<open>Images with transparency converted to JPEG\<close>

text \<open>
  Pasting under an alpha mask onto white: a transparent pixel becomes white, an opaque
  one keeps its colour.
\<close>

lemma blend_transparent: "d \<le> 255 \<Longrightarrow> blend 0 d s = d"
  unfolding blend_def Let_def by simp

lemma blend_opaque: "s \<le> 255 \<Longrightarrow> blend 255 d s = s"
  unfolding blend_def Let_def by simp

lemma paste_pixel_white:
  "paste_pixel (255, 255, 255) (r, g, b, a) 0 = (255, 255, 255)"
  by (simp add: paste_pixel_def blend_transparent)

lemma paste_pixel_opaque:
  "r \<le> 255 \<Longrightarrow> g \<le> 255 \<Longrightarrow> b \<le> 255 \<Longrightarrow> paste_pixel d (r, g, b, a) 255 = (r, g, b)"
  by (cases d) (simp add: paste_pixel_def blend_opaque)

lemma jpeg_composited_onto_white:
  assumes "pillow E" and "image_open E infile = Inr (sz, px)"
    and "lower target_format = ''jpeg''" and "''JPEG'' \<in> set (save_formats E)"
    and "image_write E outfile ''JPEG''
           (paste (image_new_rgb sz (255, 255, 255)) \<lparr>img_size = sz, pixels = RGBA px\<rparr>
              (map (\<lambda>q. snd (snd (snd q))) px)) = None"
  shows "convert_image_with_pillow E infile outfile target_format =
           Inr (ImageFile ''JPEG''
                  (paste (image_new_rgb sz (255, 255, 255)) \<lparr>img_size = sz, pixels = RGBA px\<rparr>
                     (map (\<lambda>q. snd (snd (snd q))) px)))"
    and "mode (paste (image_new_rgb sz (255, 255, 255)) \<lparr>img_size = sz, pixels = RGBA px\<rparr>
                 (map (\<lambda>q. snd (snd (snd q))) px)) = ''RGB''"
proof -
  have u: "upper ''jpeg'' = ''JPEG''" "upper ''JPEG'' = ''JPEG''"
    by (simp_all add: upper_def upper_char_def)
  show "convert_image_with_pillow E infile outfile target_format =
           Inr (ImageFile ''JPEG''
                  (paste (image_new_rgb sz (255, 255, 255)) \<lparr>img_size = sz, pixels = RGBA px\<rparr>
                     (map (\<lambda>q. snd (snd (snd q))) px)))"
    using assms
    by (simp add: convert_image_with_pillow_def Let_def mode_def alpha_band_def image_save_def u)
  show "mode (paste (image_new_rgb sz (255, 255, 255)) \<lparr>img_size = sz, pixels = RGBA px\<rparr>
                 (map (\<lambda>q. snd (snd (snd q))) px)) = ''RGB''"
    by (simp add: mode_def paste_def image_new_rgb_def)
qed

text \<open>
  Claim C4 at the target the converter tab offers, \<open>jpg\<close>. The image is composited onto
  white, and then saved under the format name \<open>JPG\<close>, the upper-cased target: Pillow has
  no save handler of that name (the format is called \<open>JPEG\<close>) and raises \<open>KeyError\<close>, no
  file is written and the job reports a conversion error.
\<close>

theorem jpg_target_fails:
  "convert_generic_wrapper sample_env ''photo.png'' ''dir/photo.jpg'' ''jpg'' (Some Emitter) =
     ([LogLine (''Starting conversion: photo.png '' @ arrow @ '' photo.jpg''),
       Progress 0,
       LogLine (''Converting photo.png '' @ arrow @ '' photo.jpg''),
       LogLine (cross_mark @ '' Conversion error: '' @ exn_str (KeyError ''JPG'')),
       Progress 80,
       LogLine (cross_mark @ '' Conversion error: '' @ exn_str (KeyError ''JPG'')),
       Progress 100],
      Inr (cross_mark @ '' Conversion error: '' @ exn_str (KeyError ''JPG'')),
      None)"
  by (simp add: convert_generic_wrapper_def convert_generic_def convert_generic_try_def
      run_adapter_def dispatch_def convert_image_with_pillow_def image_save_def alpha_band_def
      mode_def sample_env_def pillow_SAVE_def emit_def mime_is_def startswith_def endswith_def
      os_basename_def basename_def not_sep_def Let_def lower_def lower_char_def upper_def
      upper_char_def)

text \<open>
  With the target \<open>jpeg\<close> the same image is written, without transparency: the red
  pixel as it is, the transparent one white.
\<close>

lemma replicate_two: "replicate 2 x = [x, x]"
  by (simp add: numeral_2_eq_2)

lemma jpeg_target_succeeds:
  "convert_generic sample_env ''photo.png'' ''dir/photo.jpeg'' ''jpeg'' None =
     ([], Inr (check_mark @ '' Converted to jpeg''),
      Some (ImageFile ''JPEG'' \<lparr>img_size = (2, 1), pixels = RGB [(255, 0, 0), (255, 255, 255)]\<rparr>))"
  by (simp add: replicate_two Let_def convert_generic_def convert_generic_try_def
      run_adapter_def dispatch_def convert_image_with_pillow_def image_save_def alpha_band_def
      mode_def sample_env_def pillow_SAVE_def emit_def mime_is_def startswith_def endswith_def
      lower_def lower_char_def upper_def upper_char_def paste_def image_new_rgb_def
      paste_pixel_def blend_def)

subsection \<open>The icon container\<close>

text \<open>
  Claim C5 at a source smaller than 256 pixels, the 32 by 32 image \<open>icon.png\<close>. The
  adapter asks for the six sizes in one save, and does not enlarge the image first:
  Pillow leaves out the sizes larger than the source, and the icon file holds two
  resolutions, not six.
\<close>

theorem ico_small_source:
  "convert_image_with_pillow sample_env ''icon.png'' ''dir/icon.ico'' ''ico'' =
     Inr (IcoFile \<lparr>img_size = (32, 32), pixels = RGBA black_square\<rparr> [(16, 16), (32, 32)])"
  by (simp add: convert_image_with_pillow_def Let_def image_save_ico_def ico_fits_def
      ico_frame_size_def sample_env_def pillow_SAVE_def lower_def lower_char_def)

text \<open>
  From the 512 by 512 source \<open>poster.png\<close> the file holds the six resolutions. For every
  source, the one file written holds a frame for each of the six sizes that exceeds
  neither the width nor the height of the source.
\<close>

lemma ico_large_source:
  "convert_image_with_pillow sample_env ''poster.png'' ''dir/poster.ico'' ''ico'' =
     Inr (IcoFile \<lparr>img_size = (512, 512), pixels = RGBA white_poster\<rparr>
            [(16, 16), (32, 32), (48, 48), (64, 64), (128, 128), (256, 256)])"
  by (simp add: convert_image_with_pillow_def Let_def image_save_ico_def ico_fits_def
      ico_frame_size_def sample_env_def pillow_SAVE_def lower_def lower_char_def)

lemma ico_sizes_requested:
  assumes "pillow E" and "image_open E infile = Inr (sz, px)"
    and "lower target_format = ''ico''" and "''ICO'' \<in> set (save_formats E)"
    and "image_write E outfile ''ICO'' \<lparr>img_size = sz, pixels = RGBA px\<rparr> = None"
  shows "convert_image_with_pillow E infile outfile target_format =
           Inr (IcoFile \<lparr>img_size = sz, pixels = RGBA px\<rparr>
                  (map (ico_frame_size E sz)
                     (filter (\<lambda>s. fst s \<le> fst sz \<and> snd s \<le> snd sz)
                        [(16, 16), (32, 32), (48, 48), (64, 64), (128, 128), (256, 256)])))"
  using assms
  by (simp add: convert_image_with_pillow_def Let_def image_save_ico_def ico_fits_def)

subsection \<open>The profile of a fetch\<close>

text \<open>
  The options \<open>build_ydl_opts_for_download\<close> returns are those of the branch its format
  selects, set on top of entries that hold none of the three profile keys.
\<close>

lemma build_shape:
  assumes "build_ydl_opts_for_download E outdir fmt emitter cookiefile = Inr opts"
  shows "\<exists>base location.
           map_of base ''format'' = None \<and> map_of base ''postprocessors'' = None
           \<and> map_of base ''merge_output_format'' = None
           \<and> opts =
               (if fmt = ''mp3'' then
                  dict_update base
                    [(''format'', VStr ''bestaudio/best''),
                     (''postprocessors'',
                        VList [VDict [(''key'', VStr ''FFmpegExtractAudio''),
                                      (''preferredcodec'', VStr ''mp3''),
                                      (''preferredquality'', VStr ''192'')]]),
                     (''prefer_ffmpeg'', VBool True),
                     (''postprocessor_args'', VList []),
                     (''ffmpeg_location'', location)]
                else if fmt = ''mp4'' then
                  dict_update base
                    [(''format'', VStr ''bestvideo+bestaudio/best''),
                     (''merge_output_format'', VStr ''mp4''),
                     (''ffmpeg_location'', location)]
                else
                  dict_update base
                    [(''format'', VStr ''best''),
                     (''ffmpeg_location'', location)])"
proof -
  obtain outtmpl where j:
    "os_join_value E outdir ''%(uploader)s - %(title)s.%(ext)s'' = Inr outtmpl"
    using assms
    by (cases "os_join_value E outdir ''%(uploader)s - %(title)s.%(ext)s''")
       (simp_all add: build_ydl_opts_for_download_def)
  obtain location where l: "ffmpeg_location E = Inr location"
    using assms
    by (cases "ffmpeg_location E") (simp_all add: build_ydl_opts_for_download_def j Let_def)
  define base where "base =
     (let opts = [(''outtmpl'', VStr outtmpl),
                     (''noplaylist'', VBool False),
                     (''nocheckcertificate'', VBool True)];
             opts = (case emitter of
                       None \<Rightarrow> opts
                     | Some em \<Rightarrow> dict_set ''progress_hooks'' VHooks opts)
      in (case cookiefile of
                       None \<Rightarrow> opts
                     | Some c \<Rightarrow> if c \<noteq> [] then dict_set ''cookiefile'' (VStr c) opts else opts))"
  have none: "map_of base ''format'' = None" "map_of base ''postprocessors'' = None"
    "map_of base ''merge_output_format'' = None"
    unfolding base_def Let_def
    by (cases emitter; cases cookiefile; simp add: map_of_dict_set)+
  have "opts =
               (if fmt = ''mp3'' then
                  dict_update base
                    [(''format'', VStr ''bestaudio/best''),
                     (''postprocessors'',
                        VList [VDict [(''key'', VStr ''FFmpegExtractAudio''),
                                      (''preferredcodec'', VStr ''mp3''),
                                      (''preferredquality'', VStr ''192'')]]),
                     (''prefer_ffmpeg'', VBool True),
                     (''postprocessor_args'', VList []),
                     (''ffmpeg_location'', location)]
                else if fmt = ''mp4'' then
                  dict_update base
                    [(''format'', VStr ''bestvideo+bestaudio/best''),
                     (''merge_output_format'', VStr ''mp4''),
                     (''ffmpeg_location'', location)]
                else
                  dict_update base
                    [(''format'', VStr ''best''),
                     (''ffmpeg_location'', location)])"
    using assms unfolding build_ydl_opts_for_download_def j l base_def Let_def
    by (simp only: sum.case sum.inject)
  with none show ?thesis by blast
qed

text \<open>
  Claim C6. A fetch job carries the format of the format box, \<open>mp3\<close> or \<open>mp4\<close> (the
  worker of the Instagram tab passes the literal \<open>mp4\<close>), and the remote-media fetcher
  selects the profile by it: for the audio format \<open>mp3\<close> it asks for audio only with the
  best audio (\<open>bestaudio/best\<close>, extracted to mp3 by ffmpeg) and for no merge; for the
  other format, \<open>mp4\<close>, it asks for best video plus best audio merged into the requested
  container, and for no audio extraction. The options are built whenever the settings
  are a dictionary and the output directory is a string.
\<close>

theorem fetch_profile_by_format:
  "(build_ydl_opts_for_download E outdir (format_text f) emitter cookiefile = Inr opts \<longrightarrow>
      (audio_format f \<longrightarrow>
         dict_get opts ''format'' = Some (VStr ''bestaudio/best'')
         \<and> dict_get opts ''postprocessors'' =
             Some (VList [VDict [(''key'', VStr ''FFmpegExtractAudio''),
                                 (''preferredcodec'', VStr ''mp3''),
                                 (''preferredquality'', VStr ''192'')]])
         \<and> dict_get opts ''merge_output_format'' = None)
      \<and> (\<not> audio_format f \<longrightarrow>
         dict_get opts ''format'' = Some (VStr ''bestvideo+bestaudio/best'')
         \<and> dict_get opts ''merge_output_format'' = Some (VStr (format_text f))
         \<and> dict_get opts ''postprocessors'' = None))
   \<and> (start_youtube_download E g = Inr g' \<longrightarrow>
         threads g' = threads g
         \<or> (\<exists>url out cookie.
               threads g' = threads g @ [YtDownload url out (format_text (yt_format_box g)) cookie]))
   \<and> (settings E = JObj kvs \<longrightarrow>
         (\<exists>built. build_ydl_opts_for_download E (JStr d) (format_text f) emitter cookiefile
                    = Inr built))"
proof -
  have 1: "build_ydl_opts_for_download E outdir (format_text f) emitter cookiefile = Inr opts \<longrightarrow>
      (audio_format f \<longrightarrow>
         dict_get opts ''format'' = Some (VStr ''bestaudio/best'')
         \<and> dict_get opts ''postprocessors'' =
             Some (VList [VDict [(''key'', VStr ''FFmpegExtractAudio''),
                                 (''preferredcodec'', VStr ''mp3''),
                                 (''preferredquality'', VStr ''192'')]])
         \<and> dict_get opts ''merge_output_format'' = None)
      \<and> (\<not> audio_format f \<longrightarrow>
         dict_get opts ''format'' = Some (VStr ''bestvideo+bestaudio/best'')
         \<and> dict_get opts ''merge_output_format'' = Some (VStr (format_text f))
         \<and> dict_get opts ''postprocessors'' = None)"
  proof
    assume b: "build_ydl_opts_for_download E outdir (format_text f) emitter cookiefile = Inr opts"
    show "(audio_format f \<longrightarrow>
         dict_get opts ''format'' = Some (VStr ''bestaudio/best'')
         \<and> dict_get opts ''postprocessors'' =
             Some (VList [VDict [(''key'', VStr ''FFmpegExtractAudio''),
                                 (''preferredcodec'', VStr ''mp3''),
                                 (''preferredquality'', VStr ''192'')]])
         \<and> dict_get opts ''merge_output_format'' = None)
      \<and> (\<not> audio_format f \<longrightarrow>
         dict_get opts ''format'' = Some (VStr ''bestvideo+bestaudio/best'')
         \<and> dict_get opts ''merge_output_format'' = Some (VStr (format_text f))
         \<and> dict_get opts ''postprocessors'' = None)"
    proof -
      from build_shape [OF b] obtain base location where
        n: "map_of base ''format'' = None" "map_of base ''postprocessors'' = None"
           "map_of base ''merge_output_format'' = None"
        and o: "opts =
               (if format_text f = ''mp3'' then
                  dict_update base
                    [(''format'', VStr ''bestaudio/best''),
                     (''postprocessors'',
                        VList [VDict [(''key'', VStr ''FFmpegExtractAudio''),
                                      (''preferredcodec'', VStr ''mp3''),
                                      (''preferredquality'', VStr ''192'')]]),
                     (''prefer_ffmpeg'', VBool True),
                     (''postprocessor_args'', VList []),
                     (''ffmpeg_location'', location)]
                else if format_text f = ''mp4'' then
                  dict_update base
                    [(''format'', VStr ''bestvideo+bestaudio/best''),
                     (''merge_output_format'', VStr ''mp4''),
                     (''ffmpeg_location'', location)]
                else
                  dict_update base
                    [(''format'', VStr ''best''),
                     (''ffmpeg_location'', location)])" by blast
      show ?thesis
        by (cases f) (simp_all add: o dict_get_def map_of_dict_update map_add_def n)
    qed
  qed
  have 2: "start_youtube_download E g = Inr g' \<longrightarrow>
         threads g' = threads g
         \<or> (\<exists>url out cookie.
               threads g' = threads g @ [YtDownload url out (format_text (yt_format_box g)) cookie])"
    by (auto simp: start_youtube_download_def Let_def split: sum.splits if_splits)
  have 3: "settings E = JObj kvs \<longrightarrow>
         (\<exists>built. build_ydl_opts_for_download E (JStr d) (format_text f) emitter cookiefile
                    = Inr built)"
    by (simp add: build_ydl_opts_for_download_def os_join_value_def ffmpeg_location_def Let_def)
  from 1 2 3 show ?thesis by blast
qed

text \<open>The two profiles on the sample machine.\<close>

theorem fetch_profile_by_format_witness:
  "(\<exists>opts. build_ydl_opts_for_download sample_env (JStr ''/tmp'') ''mp3'' None None = Inr opts
       \<and> dict_get opts ''format'' = Some (VStr ''bestaudio/best'')
       \<and> dict_get opts ''merge_output_format'' = None)
   \<and> (\<exists>opts. build_ydl_opts_for_download sample_env (JStr ''/tmp'') ''mp4'' None None = Inr opts
       \<and> dict_get opts ''format'' = Some (VStr ''bestvideo+bestaudio/best'')
       \<and> dict_get opts ''merge_output_format'' = Some (VStr ''mp4''))"
proof -
  obtain o3 where o3: "build_ydl_opts_for_download sample_env (JStr ''/tmp'') (format_text Mp3)
      None None = Inr o3"
    by (simp add: build_ydl_opts_for_download_def os_join_value_def ffmpeg_location_def
        sample_env_def Let_def)
  obtain o4 where o4: "build_ydl_opts_for_download sample_env (JStr ''/tmp'') (format_text Mp4)
      None None = Inr o4"
    by (simp add: build_ydl_opts_for_download_def os_join_value_def ffmpeg_location_def
        sample_env_def Let_def)
  show ?thesis
    using fetch_profile_by_format [of sample_env "JStr ''/tmp''" Mp3 None None o3 blank_gui blank_gui]
      fetch_profile_by_format [of sample_env "JStr ''/tmp''" Mp4 None None o4 blank_gui blank_gui]
      o3 o4
    by simp
qed

subsection \<open>A fetch without a URL\<close>

text \<open>
  Claim C7 at the main window with a blank URL and a blank output folder, on a machine
  whose default output folder is empty and whose working directory is gone. The start
  button settles the output folder before it looks at the URL: the exception
  \<open>os.getcwd()\<close> raises there leaves the handler, and the request is not answered with
  the rejection line.
\<close>

theorem blank_url_not_rejected:
  "start_youtube_download removed_cwd_env blank_gui =
     Inl (ToolError ''[Errno 2] No such file or directory'')"
  by (simp add: start_youtube_download_def or_default_output_or_cwd_def removed_cwd_env_def
      sample_env_def blank_gui_def strip_eval)

text \<open>
  What does hold for a URL that is empty or only whitespace: when settling the output
  folder does not raise, the start button answers with the rejection line and nothing
  else; it never starts a worker thread; and \<open>yt_download\<close> itself answers such a URL
  with the rejection message before it emits or reads anything.
\<close>

lemma blank_url_rejected:
  assumes "strip (yt_url g) = []" and "or_default_output_or_cwd E (JStr (strip (yt_out_display g))) = Inr out"
  shows "start_youtube_download E g
           = Inr (g\<lparr>yt_log := yt_log g @ [cross_mark @ '' Please paste a URL.'']\<rparr>)"
  using assms by (simp add: start_youtube_download_def Let_def)

lemma blank_url_no_thread:
  assumes "strip (yt_url g) = []" and "start_youtube_download E g = Inr g'"
  shows "threads g' = threads g"
  using assms by (auto simp: start_youtube_download_def Let_def split: sum.splits)

lemma yt_download_blank_url:
  "strip url = [] \<Longrightarrow> yt_download E url outdir fmt emitter cookiefile
           = ([], Inr (cross_mark @ '' No URL provided''))"
  by (simp add: yt_download_def)

subsection \<open>The output path of a conversion\<close>

lemma basename_no_sep: "CHR ''/'' \<notin> set (basename p)"
proof
  assume "CHR ''/'' \<in> set (basename p)"
  then have "CHR ''/'' \<in> set (takeWhile not_sep (rev p))" by (simp add: basename_def)
  then have "not_sep CHR ''/''" by (rule set_takeWhileD [THEN conjunct2])
  then show False by (simp add: not_sep_def)
qed

lemma splitext_stem_chars: "set (fst (splitext p)) \<subseteq> set p"
proof -
  have "set (basename p) \<subseteq> set p"
    using set_takeWhileD [of _ not_sep "rev p"] by (auto simp: basename_def)
  then show ?thesis
    by (auto simp: splitext_def Let_def dest!: in_set_takeD)
qed

lemma stem_no_sep: "CHR ''/'' \<notin> set (fst (splitext (basename p)))"
  using splitext_stem_chars [of "basename p"] basename_no_sep [of p] by blast

lemma path_join_file:
  assumes "CHR ''/'' \<notin> set stem"
  shows "path_join dir (stem @ ''.'' @ target)
           = (if dir = [] \<or> endswith dir ''/'' then dir else dir @ ''/'') @ stem @ ''.'' @ target"
  using assms by (cases stem) (auto simp: path_join_def startswith_def)

text \<open>
  Claim C8. For a valid input file and a chosen output directory, the conversion job is
  started with the output path that \<open>os.path.join\<close> makes of that directory and the file
  name built from the base name of the input without its extension, a dot and the
  target format. Where \<open>os.path\<close> is \<open>posixpath\<close> that path is the directory, a slash unless
  the directory ends with one, and the file name; so converting \<open>clip.mp4\<close> to \<open>mp3\<close> into
  \<open>dir\<close> writes \<open>dir/clip.mp3\<close> (the witness below).
\<close>

theorem conversion_output_path:
  assumes "strip (conv_input g) = infile" and "infile \<noteq> []" and "isfile E infile"
    and "strip (conv_out g) = dir" and "dir \<noteq> []"
    and "strip (conv_format g) = target"
  shows "start_conversion E g =
           Inr (g\<lparr>threads := threads g @
                  [Conversion infile
                     (os_join E dir (fst (os_splitext E (os_basename E infile)) @ ''.'' @ target))
                     target]\<rparr>)
         \<and> (\<not> os_nt E \<longrightarrow>
              os_join E dir (fst (os_splitext E (os_basename E infile)) @ ''.'' @ target) =
                (if endswith dir ''/'' then dir else dir @ ''/'')
                  @ fst (splitext (basename infile)) @ ''.'' @ target)"
proof -
  have 1: "start_conversion E g =
           Inr (g\<lparr>threads := threads g @
                  [Conversion infile
                     (os_join E dir (fst (os_splitext E (os_basename E infile)) @ ''.'' @ target))
                     target]\<rparr>)"
    using assms by (simp add: start_conversion_def Let_def os_join_value_def)
  have 2: "\<not> os_nt E \<longrightarrow>
              os_join E dir (fst (os_splitext E (os_basename E infile)) @ ''.'' @ target) =
                (if endswith dir ''/'' then dir else dir @ ''/'')
                  @ fst (splitext (basename infile)) @ ''.'' @ target"
    using assms(5) path_join_file [OF stem_no_sep, of dir infile target]
    by (simp add: os_join_def os_splitext_def os_basename_def)
  from 1 2 show ?thesis by blast
qed

text \<open>Converting \<open>clip.mp4\<close> to \<open>mp3\<close> with the output folder \<open>dir\<close>.\<close>

theorem conversion_output_path_witness:
  "start_conversion sample_env clip_gui =
     Inr (clip_gui\<lparr>threads := [Conversion ''clip.mp4'' ''dir/clip.mp3'' ''mp3'']\<rparr>)"
proof -
  have s: "strip (conv_input clip_gui) = ''clip.mp4''" "strip (conv_out clip_gui) = ''dir''"
    "strip (conv_format clip_gui) = ''mp3''"
    by (simp_all add: clip_gui_def blank_gui_def strip_eval)
  have f: "isfile sample_env ''clip.mp4''" "\<not> os_nt sample_env" by (simp_all add: sample_env_def)
  have n: "''clip.mp4'' \<noteq> []" "''dir'' \<noteq> []" by simp_all
  have b: "fst (splitext (basename ''clip.mp4'')) = ''clip''"
    by (simp add: splitext_def basename_def not_sep_def Let_def)
  have t: "threads clip_gui = []" by (simp add: clip_gui_def blank_gui_def)
  show ?thesis
    using conversion_output_path [OF s(1) n(1) f(1) s(2) n(2) s(3)] f(2)
    by (simp add: b t endswith_def startswith_def)
qed

subsection \<open>Running without an observer\<close>

text \<open>
  Claim C9 at the conversion job run with no observer. \<open>convert_generic_wrapper\<close> emits
  on its emitter in its first line, outside its \<open>try\<close> block and without the test
  \<open>if emitter:\<close> that \<open>yt_download\<close> and \<open>convert_generic\<close> make: with \<open>emitter = None\<close> it
  raises \<open>AttributeError\<close> and returns no message.
\<close>

theorem headless_conversion_raises:
  "convert_generic_wrapper sample_env ''clip.mp4'' ''dir/clip.mp3'' ''mp3'' None =
     ([], Inl (no_attribute JNull ''log''), None)"
  by (simp add: convert_generic_wrapper_def)

text \<open>
  The inner \<open>convert_generic\<close> does run without an observer: it emits nothing then and
  returns what it returns with one.
\<close>

lemma headless_convert_generic_same:
  "snd (convert_generic E infile outfile target_format None)
     = snd (convert_generic E infile outfile target_format (Some em))
   \<and> fst (convert_generic E infile outfile target_format None) = []"
  by (simp add: convert_generic_def convert_generic_try_def Let_def emit_def
        split: sum.splits prod.splits)

subsection \<open>Settings\<close>





text \<open>
  Outside those cases: a parsed document that is not an object but in which both key
  names are found (a list holding the two strings) is returned as it is.
\<close>

lemma load_settings_returns_list:
  "load_settings downloads True (Inr (JArr [JStr ''ffmpeg_path'', JStr ''default_output'']))
     = JArr [JStr ''ffmpeg_path'', JStr ''default_output'']"
  by (simp add: load_settings_def DEFAULT_SETTINGS_def)

end
